theory Spec2Isabelle
  imports Complex_Main
begin

section \<open>JavaScript values\<close>

text \<open>
  A JavaScript number is a double. The operations \<^verbatim>\<open>src/index.js\<close> applies to numbers are
  comparisons, \<^verbatim>\<open>Math.ceil\<close>, \<^verbatim>\<open>Number.isInteger\<close> and the clamp of \<^verbatim>\<open>seek\<close>; none of
  them rounds, so a finite double is modelled by the real number it denotes, next to the
  three values that are not finite. The sign of zero is not modelled. A decimal literal
  of the source stands for the double nearest to it and is written here as the decimal:
  the literal \<^verbatim>\<open>0.1\<close> is the double next above one tenth and no double lies between the
  two, so a double is at least the literal exactly when its value is at least \<open>1/10\<close>.
\<close>

datatype jsnum = NaN | NegInf | Fin real | PosInf

text \<open>The relational operators \<^verbatim>\<open><=\<close> and \<^verbatim>\<open><\<close> on numbers: false as soon as one side is NaN.\<close>

fun js_le :: "jsnum \<Rightarrow> jsnum \<Rightarrow> bool" where
  "js_le NaN _ = False"
| "js_le _ NaN = False"
| "js_le NegInf _ = True"
| "js_le _ PosInf = True"
| "js_le (Fin a) (Fin b) = (a \<le> b)"
| "js_le (Fin _) NegInf = False"
| "js_le PosInf _ = False"

fun js_lt :: "jsnum \<Rightarrow> jsnum \<Rightarrow> bool" where
  "js_lt NaN _ = False"
| "js_lt _ NaN = False"
| "js_lt PosInf _ = False"
| "js_lt _ NegInf = False"
| "js_lt NegInf _ = True"
| "js_lt (Fin a) (Fin b) = (a < b)"
| "js_lt (Fin _) PosInf = True"

text \<open>\<^verbatim>\<open>a !== b\<close> on numbers: NaN differs from everything, itself included.\<close>

definition strict_neq :: "jsnum \<Rightarrow> jsnum \<Rightarrow> bool" where
  "strict_neq a b = (if a = NaN then True else if b = NaN then True else a \<noteq> b)"

definition Math_min :: "jsnum \<Rightarrow> jsnum \<Rightarrow> jsnum" where
  "Math_min a b = (if a = NaN then NaN else if b = NaN then NaN else if js_le a b then a else b)"

definition Math_max :: "jsnum \<Rightarrow> jsnum \<Rightarrow> jsnum" where
  "Math_max a b = (if a = NaN then NaN else if b = NaN then NaN else if js_le a b then b else a)"

fun Math_ceil :: "jsnum \<Rightarrow> jsnum" where
  "Math_ceil (Fin r) = Fin (of_int \<lceil>r\<rceil>)"
| "Math_ceil x = x"

text \<open>
  The fields of an \<^verbatim>\<open>HTMLMediaElement\<close> that \<^verbatim>\<open>src/index.js\<close> reads or writes. The element
  is held by value (no claim depends on a second reference to it). Its \<^verbatim>\<open>currentTime\<close> is
  written through \<open>set_currentTime\<close> below, which refuses a number that is not finite as
  the element's setter does; the seek that a browser starts on a finite number is not
  modelled, and the number written is the one read back.
\<close>

record media =
  currentTime :: jsnum
  duration :: jsnum
  paused :: bool
  ended :: bool
  readyState :: nat
  currentSrc :: string

datatype media_kind = Video | Audio

text \<open>
  The values the program handles. \<open>Object\<close> is an object given by its own properties
  (an option bag, a decoded buffer with its \<^verbatim>\<open>getChannelData\<close>, a typed array with its
  \<^verbatim>\<open>buffer\<close>); \<open>HTMLElement\<close> is an element whose class is \<^verbatim>\<open>HTMLElement\<close> itself.
\<close>

datatype jsval =
    Undefined
  | Null
  | Bool bool
  | Num jsnum
  | Str string
  | Function
  | Array
  | HTMLElement
  | HTMLDivElement
  | MediaElement media_kind media
  | Object "(string \<times> jsval) list"

fun typeof :: "jsval \<Rightarrow> string" where
  "typeof Undefined = ''undefined''"
| "typeof (Bool _) = ''boolean''"
| "typeof (Num _) = ''number''"
| "typeof (Str _) = ''string''"
| "typeof Function = ''function''"
| "typeof _ = ''object''"

text \<open>
  \<^verbatim>\<open>validator.kindOf\<close> of the package \<^verbatim>\<open>option-validator\<close>: the class name that
  \<^verbatim>\<open>Object.prototype.toString\<close> gives, in lower case. Every \<open>Object\<close> is given the kind
  \<^verbatim>\<open>object\<close>; the package names some plain objects by their shape instead (an object with
  \<^verbatim>\<open>next\<close>, \<^verbatim>\<open>throw\<close> and \<^verbatim>\<open>return\<close> functions, or with \<^verbatim>\<open>length\<close> and \<^verbatim>\<open>callee\<close>), which is
  not modelled: the theorems on \<^verbatim>\<open>setOptions\<close> take the kind \<^verbatim>\<open>object\<close> of the argument as a
  hypothesis.
\<close>

fun kindOf :: "jsval \<Rightarrow> string" where
  "kindOf Undefined = ''undefined''"
| "kindOf Null = ''null''"
| "kindOf (Bool _) = ''boolean''"
| "kindOf (Num _) = ''number''"
| "kindOf (Str _) = ''string''"
| "kindOf Function = ''function''"
| "kindOf Array = ''array''"
| "kindOf HTMLElement = ''htmlelement''"
| "kindOf HTMLDivElement = ''htmldivelement''"
| "kindOf (MediaElement Video _) = ''htmlvideoelement''"
| "kindOf (MediaElement Audio _) = ''htmlaudioelement''"
| "kindOf (Object _) = ''object''"

text \<open>Truthiness, as \<^verbatim>\<open>x ? a : b\<close>, \<^verbatim>\<open>x && y\<close> and \<^verbatim>\<open>if (x)\<close> test it.\<close>

fun truthy :: "jsval \<Rightarrow> bool" where
  "truthy Undefined = False"
| "truthy Null = False"
| "truthy (Bool b) = b"
| "truthy (Num n) = (if n = NaN then False else n \<noteq> Fin 0)"
| "truthy (Str s) = (s \<noteq> [])"
| "truthy _ = True"

text \<open>Reading a property of an object whose properties are a map: a missing one is \<^verbatim>\<open>undefined\<close>.\<close>

definition lookup :: "(string \<rightharpoonup> jsval) \<Rightarrow> string \<Rightarrow> jsval" where
  "lookup m k = (case m k of Some v \<Rightarrow> v | None \<Rightarrow> Undefined)"

text \<open>
  \<^verbatim>\<open>value.name\<close>: an \<open>Object\<close> has the properties it lists (the first entry of a name
  counts), a media element has the fields of its record, and the other values have none
  of the properties the program asks for.
\<close>

fun property :: "jsval \<Rightarrow> string \<Rightarrow> jsval" where
  "property (Object ps) k = lookup (map_of ps) k"
| "property (MediaElement _ m) k =
     (if k = ''currentTime'' then Num (currentTime m)
      else if k = ''duration'' then Num (duration m)
      else if k = ''paused'' then Bool (paused m)
      else if k = ''ended'' then Bool (ended m)
      else if k = ''readyState'' then Num (Fin (of_nat (readyState m)))
      else if k = ''currentSrc'' then Str (currentSrc m)
      else Undefined)"
| "property _ k = Undefined"

text \<open>\<^verbatim>\<open>Number.isInteger\<close>: false on whatever is not a number, with no conversion.\<close>

fun Number_isInteger :: "jsval \<Rightarrow> bool" where
  "Number_isInteger (Num (Fin r)) = (of_int \<lfloor>r\<rfloor> = r)"
| "Number_isInteger _ = False"

text \<open>
  \<^verbatim>\<open>ToNumber\<close>, where a numeric operation receives the result of a getter: a number or
  \<^verbatim>\<open>undefined\<close>. The conversion of strings and objects to numbers is not modelled (they
  are taken to NaN); no call of the program passes one.
\<close>

fun ToNumber :: "jsval \<Rightarrow> jsnum" where
  "ToNumber (Num x) = x"
| "ToNumber Null = Fin 0"
| "ToNumber (Bool b) = Fin (if b then 1 else 0)"
| "ToNumber _ = NaN"

text \<open>
  \<^verbatim>\<open>String.prototype.trim\<close>, on the ASCII white space characters. The white space beyond
  ASCII that it also strips (U+00A0, U+FEFF, U+2028 and the like) is not modelled; the
  strings that the theorems put through it are empty or plain ASCII.
\<close>

definition is_space :: "char \<Rightarrow> bool" where
  "is_space c = (c \<in> set [CHR '' '', CHR 0x09, CHR 0x0A, CHR 0x0B, CHR 0x0C, CHR 0x0D])"

definition trim :: "string \<Rightarrow> string" where
  "trim s = rev (dropWhile is_space (rev (dropWhile is_space s)))"


text \<open>The string of a value that \<^verbatim>\<open>typeof\<close> has found to be a string.\<close>

fun string_of :: "jsval \<Rightarrow> string" where
  "string_of (Str s) = s"
| "string_of _ = []"

text \<open>The own properties of an object, as \<^verbatim>\<open>{...options}\<close> copies them.\<close>

fun own_properties :: "jsval \<Rightarrow> (string \<rightharpoonup> jsval)" where
  "own_properties (Object ps) = map_of ps"
| "own_properties _ = Map.empty"

section \<open>Errors and outcomes\<close>

text \<open>
  The classes of the spec's error taxonomy that a call of \<^verbatim>\<open>src/index.js\<close> can raise at
  once. \<open>InvalidArgumentError\<close> is the error of \<^verbatim>\<open>seek\<close> on a value that is not a number,
  which the taxonomy does not name, and \<open>TypeError\<close> is the one a media element raises
  when its \<^verbatim>\<open>currentTime\<close> is assigned a number that is not finite.
\<close>

datatype error =
  ConfigError | InvalidTargetError | InvalidChannelError | InvalidArgumentError | TypeError

text \<open>
  A method either returns or throws; the instance is an object that the method mutates in
  place, so both outcomes carry the instance as the call left it.
\<close>

datatype 's outcome = Return 's | Throw error 's

fun state_of :: "'s outcome \<Rightarrow> 's" where
  "state_of (Return s) = s"
| "state_of (Throw e s) = s"

fun thrown :: "'s outcome \<Rightarrow> error option" where
  "thrown (Return s) = None"
| "thrown (Throw e s) = Some e"

text \<open>
  Modelled from the spec: \<^verbatim>\<open>errorHandle\<close> of \<^verbatim>\<open>./utils\<close>, which is not under \<^verbatim>\<open>src/\<close>. It
  throws when its condition is falsy (section 7: the errors are surfaced synchronously to
  the caller). The message of the source is replaced by the class that the spec gives to
  the call site; the result is the error thrown, if any.
\<close>

definition errorHandle :: "bool \<Rightarrow> error \<Rightarrow> error option" where
  "errorHandle condition e = (if condition then None else Some e)"

text \<open>
  Modelled from the spec: \<^verbatim>\<open>clamp\<close> of \<^verbatim>\<open>./utils\<close>, which is not under \<^verbatim>\<open>src/\<close>. Section 6:
  \<^verbatim>\<open>seek(seconds)\<close> clamps to \<open>[0, duration]\<close>; written with \<^verbatim>\<open>Math.max\<close> and \<^verbatim>\<open>Math.min\<close>.
\<close>

definition clamp :: "jsnum \<Rightarrow> jsnum \<Rightarrow> jsnum \<Rightarrow> jsnum" where
  "clamp num lo hi = Math_max lo (Math_min num hi)"

section \<open>Collaborators\<close>

text \<open>
  \<^verbatim>\<open>Events\<close>, \<^verbatim>\<open>Template\<close>, \<^verbatim>\<open>Drawer\<close>, \<^verbatim>\<open>Controller\<close>, \<^verbatim>\<open>Loader\<close> and the \<^verbatim>\<open>Emitter\<close> base class
  are not under \<^verbatim>\<open>src/\<close>, and the spec keeps them outside the instance's own fields (DOM
  scaffolding, canvas painting, network, event dispatch). The model records every call
  made to them, in order; a recorded call returns. The decode operations that \<^verbatim>\<open>load\<close>
  starts on the decoder are recorded in the same way.
\<close>

datatype component = Events | Template | Decoder | Drawer | Controller | Loader

datatype call =
    New component
  | Update component
  | Destroy component
  | Emit string jsval
  | DecodeSuccess jsval
  | DecodeAudioData jsval
  | LoaderLoad jsval
  | ControllerInit
  | ExportImage

subsection \<open>The decoder\<close>

text \<open>
  Modelled from the spec: the \<^verbatim>\<open>Decoder\<close> class (\<^verbatim>\<open>./decoder\<close>) is not under \<^verbatim>\<open>src/\<close>.
  Section 3 gives the decoded audio (\<open>channelCount\<close> is the number of its channels) and
  the peak table, a sequence of (min, max) pairs materialized for one channel at a time;
  section 4.3 gives the states \<open>Empty\<close>, \<open>Decoding\<close>, \<open>Ready\<close> and \<open>Error\<close>.
\<close>

record decoded_audio =
  sampleRate :: real
  audio_duration :: real
  channels :: "real list list"

definition channelCount :: "decoded_audio \<Rightarrow> nat" where
  "channelCount a = length (channels a)"

datatype decoder_state = Empty | Decoding | Ready | Error

record decoder =
  state :: decoder_state
  audio :: "decoded_audio option"
  peakTable :: "(real \<times> real) list"

definition new_decoder :: decoder where
  "new_decoder = \<lparr>state = Empty, audio = None, peakTable = []\<rparr>"

text \<open>
  Modelled from the spec: \<^verbatim>\<open>Decoder.changeChannel\<close>, section 4.3: ``requires \<open>Ready\<close> state
  and \<open>index < channelCount\<close>; fails with an \<open>InvalidChannelError\<close> otherwise; recomputes
  PeakTable from already-held \<open>DecodedAudio\<close>''. The PeakReducer at the resolution in
  force is the parameter \<open>reduce\<close>.
\<close>

definition decoder_changeChannel ::
  "(real list \<Rightarrow> (real \<times> real) list) \<Rightarrow> decoder \<Rightarrow> nat \<Rightarrow> error + decoder" where
  "decoder_changeChannel reduce d index =
     (case audio d of
        None \<Rightarrow> Inl InvalidChannelError
      | Some a \<Rightarrow>
          if state d = Ready \<and> index < channelCount a
          then Inr (d\<lparr>peakTable := reduce (channels a ! index)\<rparr>)
          else Inl InvalidChannelError)"

text \<open>
  Modelled from the spec: \<^verbatim>\<open>Decoder.destroy\<close>, section 4.3: ``releases \<open>DecodedAudio\<close> and
  \<open>PeakTable\<close>, returns to \<open>Empty\<close>''.
\<close>

definition decoder_destroy :: "decoder \<Rightarrow> decoder" where
  "decoder_destroy d = d\<lparr>state := Empty, audio := None, peakTable := []\<rparr>"

section \<open>The environment and the module's globals\<close>

text \<open>
  \<^verbatim>\<open>window.devicePixelRatio\<close> and \<^verbatim>\<open>document.querySelector\<close>, which is taken to return an
  element or \<^verbatim>\<open>null\<close>.
\<close>

record env =
  devicePixelRatio :: jsnum
  querySelector :: "string \<Rightarrow> jsval"

text \<open>
  \<^verbatim>\<open>let id = 0; const instances = [];\<close> An instance is an object, found in the registry by
  reference; the model names it by the \<^verbatim>\<open>id\<close> that its constructor gives it, which no two
  instances share.
\<close>

record globals =
  module_id :: nat
  instances :: "nat list"

section \<open>The class WFPlayer\<close>

text \<open>
  The fields of an instance: \<^verbatim>\<open>_currentTime\<close>, \<^verbatim>\<open>isDestroy\<close>, \<^verbatim>\<open>options\<close>, whether \<^verbatim>\<open>template\<close>
  and \<^verbatim>\<open>drawer\<close> have been created (all that \<^verbatim>\<open>update\<close> asks of them), the decoder, the
  calls made to the collaborators so far, and \<^verbatim>\<open>id\<close> (0 until the constructor assigns it).
\<close>

record wfplayer =
  priv_currentTime :: jsnum
  isDestroy :: bool
  options :: "string \<rightharpoonup> jsval"
  template :: bool
  drawer :: bool
  decoder :: decoder
  calls :: "call list"
  wf_id :: nat

definition call :: "call \<Rightarrow> wfplayer \<Rightarrow> wfplayer" where
  "call c w = w\<lparr>calls := calls w @ [c]\<rparr>"

subsection \<open>Static getters\<close>

definition WFPlayer_default :: "env \<Rightarrow> (string \<times> jsval) list" where
  "WFPlayer_default e =
     [(''container'', Str ''#waveform''),
      (''mediaElement'', Null),
      (''useWorker'', Bool True),
      (''wave'', Bool True),
      (''waveColor'', Str ''rgba(255, 255, 255, 0.1)''),
      (''backgroundColor'', Str ''rgb(28, 32, 34)''),
      (''paddingColor'', Str ''rgba(255, 255, 255, 0.05)''),
      (''cursor'', Bool True),
      (''cursorColor'', Str ''#ff0000''),
      (''progress'', Bool True),
      (''progressColor'', Str ''rgba(255, 255, 255, 0.5)''),
      (''grid'', Bool True),
      (''gridColor'', Str ''rgba(255, 255, 255, 0.05)''),
      (''ruler'', Bool True),
      (''rulerColor'', Str ''rgba(255, 255, 255, 0.5)''),
      (''rulerAtTop'', Bool True),
      (''scrollable'', Bool False),
      (''refreshDelay'', Num (Fin 50)),
      (''channel'', Num (Fin 0)),
      (''duration'', Num (Fin 10)),
      (''padding'', Num (Fin 5)),
      (''waveScale'', Num (Fin 0.8)),
      (''pixelRatio'', Num (Math_ceil (devicePixelRatio e)))]"

text \<open>
  An entry of a scheme is a string of kinds separated by \<^verbatim>\<open>|\<close>, or a function of the
  value and its kind that returns \<^verbatim>\<open>true\<close> or throws.
\<close>

datatype scheme_entry = Kinds string | Validator "jsval \<Rightarrow> string \<Rightarrow> error + bool"

definition checkNum :: "string \<Rightarrow> real \<Rightarrow> real \<Rightarrow> bool \<Rightarrow> jsval \<Rightarrow> string \<Rightarrow> error + bool" where
  "checkNum name mn mx isInteger val type =
     (case errorHandle (type = ''number'') ConfigError of
        Some e \<Rightarrow> Inl e
      | None \<Rightarrow>
          (case errorHandle
                  (js_le (Fin mn) (ToNumber val) \<and> js_le (ToNumber val) (Fin mx) \<and>
                   (if isInteger then Number_isInteger val else True))
                  ConfigError of
             Some e \<Rightarrow> Inl e
           | None \<Rightarrow> Inr True))"

definition WFPlayer_scheme :: "(string \<times> scheme_entry) list" where
  "WFPlayer_scheme =
     [(''container'', Kinds ''htmlelement|htmldivelement''),
      (''mediaElement'', Kinds ''null|htmlvideoelement|htmlaudioelement''),
      (''useWorker'', Kinds ''boolean''),
      (''wave'', Kinds ''boolean''),
      (''waveColor'', Kinds ''string''),
      (''backgroundColor'', Kinds ''string''),
      (''paddingColor'', Kinds ''string''),
      (''cursor'', Kinds ''boolean''),
      (''cursorColor'', Kinds ''string''),
      (''progress'', Kinds ''boolean''),
      (''progressColor'', Kinds ''string''),
      (''grid'', Kinds ''boolean''),
      (''gridColor'', Kinds ''string''),
      (''ruler'', Kinds ''boolean''),
      (''rulerColor'', Kinds ''string''),
      (''rulerAtTop'', Kinds ''boolean''),
      (''scrollable'', Kinds ''boolean''),
      (''refreshDelay'', Validator (checkNum ''refreshDelay'' 16 1000 True)),
      (''channel'', Validator (checkNum ''channel'' 0 5 True)),
      (''duration'', Validator (checkNum ''duration'' 1 100 True)),
      (''padding'', Validator (checkNum ''padding'' 1 100 True)),
      (''waveScale'', Validator (checkNum ''waveScale'' 0.1 10 False)),
      (''pixelRatio'', Validator (checkNum ''pixelRatio'' 1 10 False))]"

subsection \<open>The package option-validator\<close>

text \<open>
  \<^verbatim>\<open>validator(option, scheme)\<close> of the npm package \<^verbatim>\<open>option-validator\<close>, on a scheme that is
  an object of strings and functions: for each key of the scheme, in order, the kind of
  \<^verbatim>\<open>option[key]\<close> must be one of the kinds a string lists, and a function must return
  \<^verbatim>\<open>true\<close>; the first entry that fails throws, and otherwise the option object itself is
  returned. Its errors are errors about an option: \<open>ConfigError\<close>.
\<close>

fun split_on :: "char \<Rightarrow> string \<Rightarrow> string list" where
  "split_on c [] = [[]]"
| "split_on c (x # xs) =
     (if x = c then [] # split_on c xs
      else (case split_on c xs of [] \<Rightarrow> [[x]] | w # ws \<Rightarrow> (x # w) # ws))"

fun check_entry :: "scheme_entry \<Rightarrow> jsval \<Rightarrow> error option" where
  "check_entry (Kinds s) v =
     (if kindOf v \<in> set (split_on (CHR ''|'') s) then None else Some ConfigError)"
| "check_entry (Validator f) v =
     (case f v (kindOf v) of
        Inl e \<Rightarrow> Some e
      | Inr r \<Rightarrow> if r then None else Some ConfigError)"

fun check_keys :: "(string \<rightharpoonup> jsval) \<Rightarrow> (string \<times> scheme_entry) list \<Rightarrow> error option" where
  "check_keys option [] = None"
| "check_keys option ((key, s) # rest) =
     (case check_entry s (lookup option key) of
        Some e \<Rightarrow> Some e
      | None \<Rightarrow> check_keys option rest)"

definition validator ::
  "(string \<rightharpoonup> jsval) \<Rightarrow> (string \<times> scheme_entry) list \<Rightarrow> error + (string \<rightharpoonup> jsval)" where
  "validator option scheme =
     (case check_keys option scheme of Some e \<Rightarrow> Inl e | None \<Rightarrow> Inr option)"

subsection \<open>Getters\<close>

definition wf_currentTime :: "wfplayer \<Rightarrow> jsval" where
  "wf_currentTime w =
     (let mediaElement = lookup (options w) ''mediaElement'' in
      if truthy mediaElement then property mediaElement ''currentTime''
      else Num (priv_currentTime w))"

definition wf_duration :: "wfplayer \<Rightarrow> jsval" where
  "wf_duration w =
     (let mediaElement = lookup (options w) ''mediaElement'' in
      if truthy mediaElement then property mediaElement ''duration''
      else Num PosInf)"

definition wf_playing :: "wfplayer \<Rightarrow> bool" where
  "wf_playing w =
     (let mediaElement = lookup (options w) ''mediaElement'' in
      if truthy mediaElement then
        (js_lt (Fin 0) (ToNumber (property mediaElement ''currentTime'')) \<and>
         \<not> truthy (property mediaElement ''paused'') \<and>
         \<not> truthy (property mediaElement ''ended'') \<and>
         js_lt (Fin 2) (ToNumber (property mediaElement ''readyState'')))
      else False)"

subsection \<open>Methods\<close>

definition update :: "wfplayer \<Rightarrow> wfplayer" where
  "update w =
     (if template w \<and> drawer w then call (Update Drawer) (call (Update Template) w) else w)"

text \<open>
  \<^verbatim>\<open>setOptions(options = {})\<close>. The two selector strings are resolved in the caller's
  object, which the model copies; \<^verbatim>\<open>this.options\<close> is assigned only when the validator has
  returned.
\<close>

definition resolve :: "env \<Rightarrow> string \<Rightarrow> (string \<rightharpoonup> jsval) \<Rightarrow> (string \<rightharpoonup> jsval)" where
  "resolve e key opts =
     (if typeof (lookup opts key) = ''string''
      then opts(key \<mapsto> querySelector e (string_of (lookup opts key)))
      else opts)"

definition merged :: "env \<Rightarrow> wfplayer \<Rightarrow> jsval \<Rightarrow> (string \<rightharpoonup> jsval)" where
  "merged e w opts =
     map_of (WFPlayer_default e) ++ options w ++
       resolve e ''mediaElement'' (resolve e ''container'' (own_properties opts))"

definition setOptions :: "env \<Rightarrow> wfplayer \<Rightarrow> jsval \<Rightarrow> wfplayer outcome" where
  "setOptions e w arg =
     (let opts = (if arg = Undefined then Object [] else arg) in
      case errorHandle (kindOf opts = ''object'') ConfigError of
        Some err \<Rightarrow> Throw err w
      | None \<Rightarrow>
          (case validator (merged e w opts) WFPlayer_scheme of
             Inl err \<Rightarrow> Throw err w
           | Inr validated \<Rightarrow> Return (update (w\<lparr>options := validated\<rparr>))))"

definition instanceof_media :: "jsval \<Rightarrow> bool" where
  "instanceof_media v = (case v of MediaElement k m \<Rightarrow> True | _ \<Rightarrow> False)"

definition load :: "wfplayer \<Rightarrow> jsval \<Rightarrow> wfplayer outcome" where
  "load w target =
     (let w0 = call (Emit ''load'' target) w in
      if truthy target \<and> typeof (property target ''getChannelData'') = ''function'' then
        Return (call ControllerInit (call (DecodeSuccess target) w0))
      else if truthy target \<and> truthy (property target ''buffer'') then
        Return (call ControllerInit (call (DecodeAudioData target) w0))
      else
        (let w1 = (if instanceof_media target
                   then w0\<lparr>options := (options w0)(''mediaElement'' \<mapsto> target)\<rparr>
                   else w0);
             target1 = (if instanceof_media target then property target ''currentSrc''
                        else target)
         in case errorHandle
                   (typeof target1 = ''string'' \<and> truthy (Str (trim (string_of target1))))
                   InvalidTargetError of
              Some err \<Rightarrow> Throw err w1
            | None \<Rightarrow> Return (call ControllerInit (call (LoaderLoad target1) w1))))"

text \<open>
  \<^verbatim>\<open>x !== t\<close> for a number \<open>t\<close>, and the assignment \<^verbatim>\<open>mediaElement.currentTime = t\<close>. On a
  media element the assignment stores a finite number and throws a \<open>TypeError\<close> on NaN and
  the infinities, as the setter of \<^verbatim>\<open>HTMLMediaElement\<close> does. A media element is the one
  value with that field that the constructor, \<^verbatim>\<open>setOptions\<close> and \<^verbatim>\<open>load\<close> can store in
  \<^verbatim>\<open>options.mediaElement\<close> (the lemmas on \<open>media_ok\<close> below); the assignment leaves any other
  value as it is.
\<close>

definition strict_neq_num :: "jsval \<Rightarrow> jsnum \<Rightarrow> bool" where
  "strict_neq_num v t = (case v of Num x \<Rightarrow> strict_neq x t | _ \<Rightarrow> True)"

fun set_currentTime :: "jsval \<Rightarrow> jsnum \<Rightarrow> error + jsval" where
  "set_currentTime (MediaElement k m) (Fin r) = Inr (MediaElement k (m\<lparr>currentTime := Fin r\<rparr>))"
| "set_currentTime (MediaElement k m) t = Inl TypeError"
| "set_currentTime v t = Inr v"

definition seek :: "wfplayer \<Rightarrow> jsval \<Rightarrow> wfplayer outcome" where
  "seek w second =
     (case errorHandle (typeof second = ''number'') InvalidArgumentError of
        Some err \<Rightarrow> Throw err w
      | None \<Rightarrow>
          (let w1 = w\<lparr>priv_currentTime :=
                        clamp (ToNumber second) (Fin 0) (ToNumber (wf_duration w))\<rparr>;
               mediaElement = lookup (options w1) ''mediaElement''
           in if truthy mediaElement \<and>
                 strict_neq_num (property mediaElement ''currentTime'') (priv_currentTime w1)
              then (case set_currentTime mediaElement (priv_currentTime w1) of
                      Inl err \<Rightarrow> Throw err w1
                    | Inr assigned \<Rightarrow>
                        Return (update
                          (w1\<lparr>options := (options w1)(''mediaElement'' \<mapsto> assigned)\<rparr>)))
              else Return (update w1)))"

text \<open>
  \<^verbatim>\<open>changeChannel(channel)\<close>, for a channel index. The decoder's ``updated'' notification
  (section 4.3) is recorded when its \<^verbatim>\<open>changeChannel\<close> has succeeded.
\<close>

definition changeChannel ::
  "env \<Rightarrow> (real list \<Rightarrow> (real \<times> real) list) \<Rightarrow> wfplayer \<Rightarrow> nat \<Rightarrow> wfplayer outcome" where
  "changeChannel e reduce w channel =
     (case decoder_changeChannel reduce (decoder w) channel of
        Inl err \<Rightarrow> Throw err w
      | Inr d \<Rightarrow>
          (case setOptions e (call (Emit ''updated'' Undefined) (w\<lparr>decoder := d\<rparr>))
                  (Object [(''channel'', Num (Fin (of_nat channel)))]) of
             Throw err w1 \<Rightarrow> Throw err w1
           | Return w1 \<Rightarrow> Return (update w1)))"

definition exportImage :: "wfplayer \<Rightarrow> wfplayer" where
  "exportImage w = call ExportImage w"

definition reset :: "wfplayer \<Rightarrow> wfplayer" where
  "reset w = w\<lparr>decoder := decoder_destroy (decoder w)\<rparr>"

subsection \<open>The registry: constructor and destroy\<close>

text \<open>
  \<^verbatim>\<open>Array.prototype.indexOf\<close> (\<open>-1\<close> when the element is absent) and
  \<^verbatim>\<open>Array.prototype.splice(start, deleteCount)\<close>, where a negative \<open>start\<close> counts from the
  end of the array.
\<close>

fun Array_indexOf_from :: "nat \<Rightarrow> 'a list \<Rightarrow> 'a \<Rightarrow> int" where
  "Array_indexOf_from i [] x = - 1"
| "Array_indexOf_from i (y # ys) x = (if y = x then int i else Array_indexOf_from (Suc i) ys x)"

definition Array_indexOf :: "'a list \<Rightarrow> 'a \<Rightarrow> int" where
  "Array_indexOf xs x = Array_indexOf_from 0 xs x"

definition Array_splice :: "'a list \<Rightarrow> int \<Rightarrow> int \<Rightarrow> 'a list" where
  "Array_splice xs start deleteCount =
     (let len = int (length xs);
          from = (if start < 0 then max (len + start) 0 else min start len);
          count = min (max deleteCount 0) (len - from)
      in take (nat from) xs @ drop (nat (from + count)) xs)"

definition new_wfplayer :: wfplayer where
  "new_wfplayer =
     \<lparr>priv_currentTime = Fin 0, isDestroy = False, options = Map.empty, template = False,
      drawer = False, decoder = new_decoder, calls = [], wf_id = 0\<rparr>"

definition constructor :: "env \<Rightarrow> globals \<Rightarrow> jsval \<Rightarrow> globals \<times> wfplayer outcome" where
  "constructor e g opts =
     (case setOptions e new_wfplayer opts of
        Throw err w \<Rightarrow> (g, Throw err w)
      | Return w1 \<Rightarrow>
          (let w2 = call (New Events) w1;
               w3 = (call (New Template) w2)\<lparr>template := True\<rparr>;
               w4 = (call (New Decoder) w3)\<lparr>decoder := new_decoder\<rparr>;
               w5 = (call (New Drawer) w4)\<lparr>drawer := True\<rparr>;
               w6 = call (New Controller) w5;
               w7 = call (New Loader) w6;
               w8 = update w7;
               g1 = g\<lparr>module_id := module_id g + 1\<rparr>;
               w9 = w8\<lparr>wf_id := module_id g1\<rparr>
           in (g1\<lparr>instances := instances g1 @ [wf_id w9]\<rparr>, Return w9)))"

definition destroy :: "globals \<Rightarrow> wfplayer \<Rightarrow> globals \<times> wfplayer" where
  "destroy g w =
     (let w1 = w\<lparr>isDestroy := True\<rparr>;
          w2 = call (Destroy Events) w1;
          w3 = call (Destroy Template) w2;
          w4 = call (Destroy Controller) w3;
          w5 = w4\<lparr>decoder := decoder_destroy (decoder w4)\<rparr>;
          w6 = call (Destroy Loader) w5;
          w7 = call (Destroy Drawer) w6
      in (g\<lparr>instances := Array_splice (instances g) (Array_indexOf (instances g) (wf_id w7)) 1\<rparr>, w7))"


text \<open>
  What the instance's own methods can leave in \<^verbatim>\<open>options.mediaElement\<close>: nothing yet,
  \<^verbatim>\<open>null\<close>, or a media element.
\<close>

definition media_ok :: "wfplayer \<Rightarrow> bool" where
  "media_ok w =
     (case lookup (options w) ''mediaElement'' of
        Undefined \<Rightarrow> True
      | Null \<Rightarrow> True
      | MediaElement k m \<Rightarrow> True
      | _ \<Rightarrow> False)"

section \<open>The documented ranges\<close>

text \<open>
  The spec's table of numeric options (section 6), written from its words and not from
  the scheme: for each name the least and greatest value, and whether the value must be
  an integer.
\<close>

definition documented_range :: "string \<Rightarrow> (real \<times> real \<times> bool) option" where
  "documented_range k =
     (if k = ''refreshDelay'' then Some (16, 1000, True)
      else if k = ''channel'' then Some (0, 5, True)
      else if k = ''duration'' then Some (1, 100, True)
      else if k = ''padding'' then Some (1, 100, True)
      else if k = ''waveScale'' then Some (0.1, 10, False)
      else if k = ''pixelRatio'' then Some (1, 10, False)
      else None)"

definition in_documented_range :: "real \<Rightarrow> real \<Rightarrow> bool \<Rightarrow> jsval \<Rightarrow> bool" where
  "in_documented_range mn mx isInt v =
     (case v of
        Num (Fin r) \<Rightarrow> mn \<le> r \<and> r \<le> mx \<and> (if isInt then r \<in> \<int> else True)
      | _ \<Rightarrow> False)"

section \<open>Example states\<close>

text \<open>A page whose only element is the \<^verbatim>\<open>div\<close> with id \<^verbatim>\<open>waveform\<close>, on a 1.5x display.\<close>

definition example_env :: env where
  "example_env =
     \<lparr>devicePixelRatio = Fin 1.5,
      querySelector = (\<lambda>s. if s = ''#waveform'' then HTMLDivElement else Null)\<rparr>"

definition example_container :: jsval where
  "example_container = Object [(''container'', Str ''#waveform'')]"

definition example_options :: "real \<Rightarrow> jsval" where
  "example_options x =
     Object [(''container'', Str ''#waveform''), (''refreshDelay'', Num (Fin x))]"

definition example_globals :: globals where
  "example_globals = \<lparr>module_id = 0, instances = []\<rparr>"

text \<open>Two instances are constructed, and the first is destroyed twice.\<close>

definition first_player :: "globals \<times> wfplayer outcome" where
  "first_player = constructor example_env example_globals example_container"

definition second_player :: "globals \<times> wfplayer outcome" where
  "second_player = constructor example_env (fst first_player) example_container"

definition destroyed_once :: "globals \<times> wfplayer" where
  "destroyed_once = destroy (fst second_player) (state_of (snd first_player))"

definition destroyed_twice :: "globals \<times> wfplayer" where
  "destroyed_twice = destroy (fst destroyed_once) (snd destroyed_once)"

text \<open>A playing video, and a video element that has no source.\<close>

definition playing_media :: media where
  "playing_media =
     \<lparr>currentTime = Fin 3, duration = Fin 60, paused = False, ended = False,
      readyState = 4, currentSrc = ''a.mp4''\<rparr>"

definition sourceless_media :: media where
  "sourceless_media =
     \<lparr>currentTime = Fin 0, duration = NaN, paused = True, ended = False,
      readyState = 0, currentSrc = []\<rparr>"

definition with_media :: wfplayer where
  "with_media =
     new_wfplayer\<lparr>priv_currentTime := Fin 7,
       options := [''mediaElement'' \<mapsto> MediaElement Video playing_media]\<rparr>"

text \<open>An instance whose video element has not loaded anything: its duration is NaN.\<close>

definition unloaded_player :: wfplayer where
  "unloaded_player =
     new_wfplayer\<lparr>options := [''mediaElement'' \<mapsto> MediaElement Video sourceless_media]\<rparr>"

definition without_media :: wfplayer where
  "without_media =
     new_wfplayer\<lparr>priv_currentTime := Fin 7, options := [''mediaElement'' \<mapsto> Null]\<rparr>"

text \<open>The first instance with a decoded two-channel buffer of 4 seconds at sample rate 8.\<close>

definition example_audio :: decoded_audio where
  "example_audio = \<lparr>sampleRate = 8, audio_duration = 4, channels = [[0, 1], [1, 0]]\<rparr>"

definition ready_player :: wfplayer where
  "ready_player =
     (state_of (snd first_player))
       \<lparr>decoder := \<lparr>state = Ready, audio = Some example_audio, peakTable = [(0, 1)]\<rparr>\<rparr>"

section \<open>Numbers and records\<close>

lemma strict_neq_False: "\<not> strict_neq a b \<Longrightarrow> a = b"
  by (auto simp: strict_neq_def split: if_splits)

lemma clamp_PosInf: "clamp s (Fin 0) PosInf = (if js_lt s (Fin 0) then Fin 0 else s)"
  by (cases s) (auto simp: clamp_def Math_max_def Math_min_def)

lemma update_fields:
  "priv_currentTime (update w) = priv_currentTime w"
  "options (update w) = options w"
  "decoder (update w) = decoder w"
  by (simp_all add: update_def call_def)

section \<open>The validator on the scheme of WFPlayer\<close>

lemma checkNum_accepts:
  "(checkNum name mn mx isInt v (kindOf v) = Inr True) = in_documented_range mn mx isInt v"
proof (cases v)
  case (Num x)
  have "(of_int \<lfloor>r\<rfloor> = r) = (r \<in> \<int>)" for r :: real
    by (metis Ints_of_int floor_of_int Ints_cases)
  then show ?thesis using Num
    by (cases x) (auto simp: checkNum_def errorHandle_def in_documented_range_def)
qed (auto simp: checkNum_def errorHandle_def in_documented_range_def)

lemma checkNum_result:
  "checkNum name mn mx isInt v t = Inr True \<or> checkNum name mn mx isInt v t = Inl ConfigError"
  by (simp add: checkNum_def errorHandle_def)

lemma check_entry_checkNum:
  "check_entry (Validator (checkNum name mn mx isInt)) v =
     (if in_documented_range mn mx isInt v then None else Some ConfigError)"
  using checkNum_accepts [of name mn mx isInt v]
    checkNum_result [of name mn mx isInt v "kindOf v"]
  by (auto split: sum.splits)

lemma check_keys_None:
  "(check_keys m sch = None) = (\<forall>(k, s) \<in> set sch. check_entry s (lookup m k) = None)"
  by (induction sch) (auto split: option.splits)

lemma check_keys_error:
  "check_keys m sch = Some err \<Longrightarrow>
     \<exists>(k, s) \<in> set sch. check_entry s (lookup m k) = Some err"
  by (induction sch) (auto split: option.splits)

lemma scheme_shape:
  "(k, s) \<in> set WFPlayer_scheme \<Longrightarrow>
     (\<exists>x. s = Kinds x) \<or> (\<exists>mn mx isInt. s = Validator (checkNum k mn mx isInt))"
  unfolding WFPlayer_scheme_def
  by (simp only: set_simps insert_iff empty_iff prod.inject) blast

lemma check_entry_Kinds_err: "check_entry (Kinds x) v = Some err \<Longrightarrow> err = ConfigError"
  by (simp split: if_splits)

lemma check_entry_checkNum_err:
  "check_entry (Validator (checkNum k mn mx isInt)) v = Some err \<Longrightarrow> err = ConfigError"
  using checkNum_result [of k mn mx isInt v "kindOf v"]
  by (auto split: sum.splits if_splits)

lemma scheme_errors:
  "(k, s) \<in> set WFPlayer_scheme \<Longrightarrow> check_entry s v = Some err \<Longrightarrow> err = ConfigError"
  using scheme_shape [of k s] check_entry_Kinds_err check_entry_checkNum_err by blast

lemma check_keys_scheme_error:
  "check_keys m WFPlayer_scheme = Some err \<Longrightarrow> err = ConfigError"
  using check_keys_error scheme_errors by fastforce

lemma scheme_distinct: "distinct (map fst WFPlayer_scheme)"
  by (simp add: WFPlayer_scheme_def)

lemma scheme_lookup:
  "map_of WFPlayer_scheme ''refreshDelay'' =
     Some (Validator (checkNum ''refreshDelay'' 16 1000 True))"
  "map_of WFPlayer_scheme ''channel'' = Some (Validator (checkNum ''channel'' 0 5 True))"
  "map_of WFPlayer_scheme ''duration'' = Some (Validator (checkNum ''duration'' 1 100 True))"
  "map_of WFPlayer_scheme ''padding'' = Some (Validator (checkNum ''padding'' 1 100 True))"
  "map_of WFPlayer_scheme ''waveScale'' =
     Some (Validator (checkNum ''waveScale'' 0.1 10 False))"
  "map_of WFPlayer_scheme ''pixelRatio'' =
     Some (Validator (checkNum ''pixelRatio'' 1 10 False))"
  by (simp_all add: WFPlayer_scheme_def)

lemma documented_range_cases:
  assumes "documented_range k = Some (mn, mx, isInt)"
  shows "(k = ''refreshDelay'' \<and> mn = 16 \<and> mx = 1000 \<and> isInt = True) \<or>
         (k = ''channel'' \<and> mn = 0 \<and> mx = 5 \<and> isInt = True) \<or>
         (k = ''duration'' \<and> mn = 1 \<and> mx = 100 \<and> isInt = True) \<or>
         (k = ''padding'' \<and> mn = 1 \<and> mx = 100 \<and> isInt = True) \<or>
         (k = ''waveScale'' \<and> mn = 0.1 \<and> mx = 10 \<and> isInt = False) \<or>
         (k = ''pixelRatio'' \<and> mn = 1 \<and> mx = 10 \<and> isInt = False)"
  using assms by (auto simp: documented_range_def split: if_splits)

text \<open>The scheme of the source holds, for each documented name, \<open>checkNum\<close> at the documented bounds.\<close>

lemma scheme_numeric:
  assumes "documented_range k = Some (mn, mx, isInt)"
  shows "map_of WFPlayer_scheme k = Some (Validator (checkNum k mn mx isInt))"
  using documented_range_cases [OF assms]
  by (elim disjE conjE) (hypsubst, rule scheme_lookup)+

lemma numeric_key:
  "documented_range k = Some r \<Longrightarrow> k \<noteq> ''container'' \<and> k \<noteq> ''mediaElement''"
  by (auto simp: documented_range_def)

lemma merged_own:
  "k \<noteq> ''container'' \<Longrightarrow> k \<noteq> ''mediaElement'' \<Longrightarrow> own_properties opts k = Some v \<Longrightarrow>
     lookup (merged e w opts) k = v"
  by (simp add: merged_def resolve_def lookup_def map_add_def)

text \<open>\<^verbatim>\<open>setOptions\<close> on an object: it assigns the merged options, or throws and assigns nothing.\<close>

lemma setOptions_cases:
  assumes "kindOf opts = ''object''"
  shows "setOptions e w opts =
       (if check_keys (merged e w opts) WFPlayer_scheme = None
        then Return (update (w\<lparr>options := merged e w opts\<rparr>))
        else Throw ConfigError w)"
proof -
  have ne: "opts \<noteq> Undefined" using assms by auto
  show ?thesis
  proof (cases "check_keys (merged e w opts) WFPlayer_scheme")
    case None
    then show ?thesis using assms ne
      by (simp add: setOptions_def errorHandle_def validator_def)
  next
    case (Some err)
    then have "err = ConfigError" by (rule check_keys_scheme_error)
    then show ?thesis using Some assms ne
      by (simp add: setOptions_def errorHandle_def validator_def)
  qed
qed

lemma setOptions_Undefined: "setOptions e w Undefined = setOptions e w (Object [])"
  by (simp add: setOptions_def)

lemma setOptions_not_object:
  "arg \<noteq> Undefined \<Longrightarrow> kindOf arg \<noteq> ''object'' \<Longrightarrow>
     setOptions e w arg = Throw ConfigError w"
  by (simp add: setOptions_def errorHandle_def)

lemma check_keys_fails:
  "map_of sch k = Some s \<Longrightarrow> check_entry s (lookup m k) \<noteq> None \<Longrightarrow>
     check_keys m sch \<noteq> None"
  using map_of_SomeD [of sch k s] unfolding check_keys_None by fastforce

lemma check_keys_split:
  assumes "distinct (map fst sch)" and "map_of sch k = Some s"
  shows "(check_keys m sch = None) =
     (check_entry s (lookup m k) = None \<and>
      (\<forall>(k', s') \<in> set sch. k' \<noteq> k \<longrightarrow> check_entry s' (lookup m k') = None))"
proof -
  have mem: "(k, s) \<in> set sch" using assms(2) by (rule map_of_SomeD)
  have uniq: "s' = s" if "(k, s') \<in> set sch" for s'
  proof -
    have "map_of sch k = Some s'" using assms(1) that by (rule map_of_is_SomeI)
    then show ?thesis using assms(2) by simp
  qed
  show ?thesis
  proof
    assume "check_keys m sch = None"
    then have all: "\<forall>(k', s') \<in> set sch. check_entry s' (lookup m k') = None"
      by (simp only: check_keys_None)
    then have "check_entry s (lookup m k) = None" using mem by fast
    then show "check_entry s (lookup m k) = None \<and>
      (\<forall>(k', s') \<in> set sch. k' \<noteq> k \<longrightarrow> check_entry s' (lookup m k') = None)"
      using all by fast
  next
    assume r: "check_entry s (lookup m k) = None \<and>
      (\<forall>(k', s') \<in> set sch. k' \<noteq> k \<longrightarrow> check_entry s' (lookup m k') = None)"
    have "check_entry s' (lookup m k') = None" if "(k', s') \<in> set sch" for k' s'
    proof (cases "k' = k")
      case True
      then show ?thesis using r uniq that by simp
    next
      case False
      then show ?thesis using r that by fast
    qed
    then show "check_keys m sch = None"
      by (simp only: check_keys_None) fast
  qed
qed

text \<open>The example options: every entry of the scheme but \<^verbatim>\<open>refreshDelay\<close> is satisfied.\<close>

lemma example_container_kind: "kindOf example_container = ''object''"
  by (simp add: example_container_def)

lemma example_container_valid:
  "check_keys (merged example_env new_wfplayer example_container) WFPlayer_scheme = None"
  by (simp add: WFPlayer_scheme_def merged_def resolve_def lookup_def example_env_def
      example_container_def new_wfplayer_def WFPlayer_default_def checkNum_def errorHandle_def
      map_add_def)

lemma example_others_valid:
  "\<forall>(k', s') \<in> set WFPlayer_scheme. k' \<noteq> ''refreshDelay'' \<longrightarrow>
      check_entry s' (lookup (merged example_env new_wfplayer (example_options x)) k') = None"
  by (simp add: WFPlayer_scheme_def merged_def resolve_def lookup_def example_env_def
      example_options_def new_wfplayer_def WFPlayer_default_def checkNum_def errorHandle_def
      map_add_def)

section \<open>What options.mediaElement can hold\<close>

lemma media_ok_cong: "options w' = options w \<Longrightarrow> media_ok w' = media_ok w"
  by (simp add: media_ok_def)

lemma media_ok_new: "media_ok new_wfplayer"
  by (simp add: media_ok_def new_wfplayer_def lookup_def)

lemma scheme_mediaElement:
  "map_of WFPlayer_scheme ''mediaElement'' =
     Some (Kinds ''null|htmlvideoelement|htmlaudioelement'')"
  by (simp add: WFPlayer_scheme_def)

lemma kinds_mediaElement:
  "check_entry (Kinds ''null|htmlvideoelement|htmlaudioelement'') v = None \<Longrightarrow>
     v = Null \<or> (\<exists>k m. v = MediaElement k m)"
  by (cases v) (simp_all split: if_splits)

lemma media_ok_validated:
  assumes "check_keys m WFPlayer_scheme = None"
  shows "media_ok (w\<lparr>options := m\<rparr>)"
proof -
  have "(''mediaElement'', Kinds ''null|htmlvideoelement|htmlaudioelement'')
          \<in> set WFPlayer_scheme"
    using scheme_mediaElement by (rule map_of_SomeD)
  then have "check_entry (Kinds ''null|htmlvideoelement|htmlaudioelement'')
               (lookup m ''mediaElement'') = None"
    using assms unfolding check_keys_None by fast
  then have "lookup m ''mediaElement'' = Null \<or>
             (\<exists>k md. lookup m ''mediaElement'' = MediaElement k md)"
    by (rule kinds_mediaElement)
  then show ?thesis by (auto simp: media_ok_def)
qed

lemma media_ok_setOptions_object:
  assumes "media_ok w" and "kindOf opts = ''object''"
  shows "media_ok (state_of (setOptions e w opts))"
proof (cases "check_keys (merged e w opts) WFPlayer_scheme")
  case None
  then have "media_ok (w\<lparr>options := merged e w opts\<rparr>)" by (rule media_ok_validated)
  then have "media_ok (update (w\<lparr>options := merged e w opts\<rparr>))"
    by (simp add: media_ok_cong [OF update_fields(2)])
  then show ?thesis
    using None by (simp add: setOptions_cases [OF assms(2)])
next
  case (Some err)
  then show ?thesis using assms(1) by (simp add: setOptions_cases [OF assms(2)])
qed

lemma media_ok_setOptions:
  assumes "media_ok w"
  shows "media_ok (state_of (setOptions e w arg))"
proof (cases "arg = Undefined")
  case True
  then show ?thesis
    using media_ok_setOptions_object [OF assms, of "Object []" e]
    by (simp add: setOptions_Undefined)
next
  case False
  then show ?thesis
    using media_ok_setOptions_object [OF assms, of arg e] assms
    by (cases "kindOf arg = ''object''") (simp_all add: setOptions_not_object)
qed

lemma media_ok_load: "media_ok w \<Longrightarrow> media_ok (state_of (load w target))"
  by (cases target)
     (auto simp: load_def Let_def media_ok_def call_def lookup_def instanceof_media_def
        errorHandle_def)

lemma set_currentTime_media:
  "set_currentTime (MediaElement k m) t = Inr v \<Longrightarrow> \<exists>m'. v = MediaElement k m'"
  by (cases t) auto

lemma media_ok_seek:
  assumes "media_ok w"
  shows "media_ok (state_of (seek w second))"
proof (cases "lookup (options w) ''mediaElement''")
  case (MediaElement k m)
  then show ?thesis
    using assms
    by (auto simp: seek_def Let_def media_ok_def errorHandle_def update_fields lookup_def
        split: sum.splits dest: set_currentTime_media)
qed (use assms in \<open>auto simp: seek_def Let_def media_ok_def errorHandle_def update_fields
  lookup_def split: sum.splits\<close>)

lemma media_ok_constructor: "media_ok (state_of (snd (constructor e g opts)))"
proof (cases "setOptions e new_wfplayer opts")
  case (Return w1)
  then have "media_ok w1" using media_ok_setOptions [OF media_ok_new, of e opts] by simp
  then show ?thesis using Return
    by (simp add: constructor_def Let_def media_ok_def update_fields call_def update_def)
next
  case (Throw err w1)
  then have "media_ok w1" using media_ok_setOptions [OF media_ok_new, of e opts] by simp
  then show ?thesis using Throw by (simp add: constructor_def)
qed

section \<open>The registry\<close>

lemma constructor_registry:
  assumes "kindOf opts = ''object''"
    and "check_keys (merged e new_wfplayer opts) WFPlayer_scheme = None"
  shows "instances (fst (constructor e g opts)) = instances g @ [module_id g + 1]"
    and "module_id (fst (constructor e g opts)) = module_id g + 1"
    and "wf_id (state_of (snd (constructor e g opts))) = module_id g + 1"
    and "thrown (snd (constructor e g opts)) = None"
    and "options (state_of (snd (constructor e g opts))) = merged e new_wfplayer opts"
  using assms(2)
  by (simp_all add: constructor_def setOptions_cases [OF assms(1)] Let_def update_def call_def)

lemmas first_player_facts =
  constructor_registry [OF example_container_kind example_container_valid, of example_globals,
    folded first_player_def]

lemmas second_player_facts =
  constructor_registry [OF example_container_kind example_container_valid,
    of "fst first_player", folded second_player_def]

lemma first_player_media:
  "lookup (options (state_of (snd first_player))) ''mediaElement'' = Null"
  by (simp add: first_player_facts merged_def resolve_def lookup_def example_env_def
      example_container_def new_wfplayer_def WFPlayer_default_def map_add_def)

lemma Array_indexOf_from_absent: "x \<notin> set xs \<Longrightarrow> Array_indexOf_from i xs x = - 1"
  by (induction xs arbitrary: i) auto

lemma Array_indexOf_absent: "x \<notin> set xs \<Longrightarrow> Array_indexOf xs x = - 1"
  by (simp add: Array_indexOf_def Array_indexOf_from_absent)

lemma Array_splice_last: "Array_splice xs (- 1) 1 = butlast xs"
proof (cases "xs = []")
  case True
  then show ?thesis by (simp add: Array_splice_def)
next
  case False
  then have len: "1 \<le> length xs" by (cases xs) auto
  have cnt: "max (int (length xs) - 1) 0 = int (length xs) - 1"
    using len by linarith
  show ?thesis
    using len by (simp add: Array_splice_def Let_def cnt butlast_conv_take nat_diff_distrib)
qed

lemma Array_indexOf_from_present:
  "x \<in> set xs \<Longrightarrow>
     int i \<le> Array_indexOf_from i xs x \<and>
     take (nat (Array_indexOf_from i xs x - int i)) xs @
       drop (nat (Array_indexOf_from i xs x - int i + 1)) xs = remove1 x xs"
proof (induction xs arbitrary: i)
  case Nil
  then show ?case by simp
next
  case (Cons y ys)
  show ?case
  proof (cases "y = x")
    case True
    then show ?thesis by simp
  next
    case False
    then have "x \<in> set ys" using Cons.prems by simp
    from Cons.IH [OF this, of "Suc i"]
    have le: "int (Suc i) \<le> Array_indexOf_from (Suc i) ys x"
      and eq: "take (nat (Array_indexOf_from (Suc i) ys x - int (Suc i))) ys @
        drop (nat (Array_indexOf_from (Suc i) ys x - int (Suc i) + 1)) ys = remove1 x ys"
      by simp_all
    define d where "d = nat (Array_indexOf_from (Suc i) ys x - int (Suc i))"
    have d1: "nat (Array_indexOf_from (Suc i) ys x - int i) = Suc d"
      using le by (simp add: d_def)
    have d2: "nat (Array_indexOf_from (Suc i) ys x - int i + 1) = Suc (Suc d)"
      using le by (simp add: d_def)
    have d3: "nat (Array_indexOf_from (Suc i) ys x - int (Suc i) + 1) = Suc d"
      using le by (simp add: d_def)
    have "take d ys @ drop (Suc d) ys = remove1 x ys"
      using eq by (simp only: d3 d_def [symmetric])
    then show ?thesis using False le by (simp add: d1 d2)
  qed
qed

lemma Array_splice_indexOf:
  assumes "x \<in> set xs"
  shows "Array_splice xs (Array_indexOf xs x) 1 = remove1 x xs"
proof -
  from Array_indexOf_from_present [OF assms, of 0]
  have le: "0 \<le> Array_indexOf xs x"
    and eq: "take (nat (Array_indexOf xs x)) xs @ drop (nat (Array_indexOf xs x + 1)) xs =
             remove1 x xs"
    by (simp_all add: Array_indexOf_def)
  have "Array_indexOf xs x < int (length xs)"
  proof (rule ccontr)
    assume "\<not> Array_indexOf xs x < int (length xs)"
    then have "remove1 x xs = xs" using eq le by simp
    then show False
      using assms
      by (metis length_remove1 One_nat_def diff_Suc_less length_pos_if_in_set less_irrefl)
  qed
  then have "min (Array_indexOf xs x) (int (length xs)) = Array_indexOf xs x"
    and "min 1 (int (length xs) - Array_indexOf xs x) = 1"
    by simp_all
  then show ?thesis using le eq by (simp add: Array_splice_def Let_def)
qed

lemma destroy_fields:
  "instances (fst (destroy g w)) =
     Array_splice (instances g) (Array_indexOf (instances g) (wf_id w)) 1"
  "module_id (fst (destroy g w)) = module_id g"
  "wf_id (snd (destroy g w)) = wf_id w"
  "isDestroy (snd (destroy g w)) = True"
  "options (snd (destroy g w)) = options w"
  by (simp_all add: destroy_def Let_def call_def)

text \<open>\<^verbatim>\<open>destroy\<close> of a registered instance removes it, and nothing else, from the registry.\<close>

lemma destroy_present:
  "wf_id w \<in> set (instances g) \<Longrightarrow>
     instances (fst (destroy g w)) = remove1 (wf_id w) (instances g)"
  by (simp add: destroy_fields Array_splice_indexOf)

text \<open>\<^verbatim>\<open>destroy\<close> of an instance that is not registered removes the last registered one.\<close>

lemma destroy_absent:
  "wf_id w \<notin> set (instances g) \<Longrightarrow> instances (fst (destroy g w)) = butlast (instances g)"
  by (simp add: destroy_fields Array_indexOf_absent Array_splice_last)

section \<open>load on a target it rejects\<close>

lemma load_invalid_media:
  assumes "trim (currentSrc m) = []"
  shows "load w (MediaElement k m) =
     Throw InvalidTargetError
       ((call (Emit ''load'' (MediaElement k m)) w)
          \<lparr>options := (options w)(''mediaElement'' \<mapsto> MediaElement k m)\<rparr>)"
  using assms
  by (simp add: load_def Let_def instanceof_media_def errorHandle_def call_def)

lemma load_invalid_other:
  assumes "\<not> (truthy target \<and> typeof (property target ''getChannelData'') = ''function'')"
    and "\<not> (truthy target \<and> truthy (property target ''buffer''))"
    and "\<not> instanceof_media target"
    and "\<not> (typeof target = ''string'' \<and> trim (string_of target) \<noteq> [])"
  shows "load w target = Throw InvalidTargetError (call (Emit ''load'' target) w)"
  using assms
  by (auto simp: load_def Let_def errorHandle_def)

lemma decoder_changeChannel_fails:
  "audio d = Some a \<Longrightarrow> channelCount a \<le> i \<Longrightarrow>
     decoder_changeChannel reduce d i = Inl InvalidChannelError"
  by (simp add: decoder_changeChannel_def)

section \<open>seek on an attached element\<close>

text \<open>
  With a media element attached whose \<^verbatim>\<open>currentTime\<close> differs from the clamped value, a
  clamped value that is not finite makes \<^verbatim>\<open>seek\<close> throw at the assignment to the element:
  \<^verbatim>\<open>_currentTime\<close> has been assigned, the element is as it was.
\<close>

lemma seek_not_finite:
  assumes "lookup (options w) ''mediaElement'' = MediaElement k m"
    and "clamp s (Fin 0) (duration m) = t"
    and "t = NaN \<or> t = NegInf \<or> t = PosInf"
    and "strict_neq (currentTime m) t"
  shows "seek w (Num s) = Throw TypeError (w\<lparr>priv_currentTime := t\<rparr>)"
  using assms
  by (auto simp: seek_def errorHandle_def Let_def wf_duration_def lookup_def
      strict_neq_num_def)

section \<open>The claims\<close>

text \<open>
  Claim C1, amended. For every number \<open>s\<close>, \<^verbatim>\<open>seek(s)\<close> leaves \<^verbatim>\<open>_currentTime\<close> equal to
  \<open>clamp(s, 0, duration)\<close>, the duration being the one the getter gave before the call.
  With a media element attached and that clamped value finite, \<^verbatim>\<open>seek\<close> returns, the
  element's \<^verbatim>\<open>currentTime\<close> is the clamped value afterwards, and the \<^verbatim>\<open>currentTime\<close> getter
  reports it; with no media element attached \<^verbatim>\<open>seek\<close> returns and the getter reports the
  clamped value as well.
\<close>

theorem seek_clamps_finite:
  "priv_currentTime (state_of (seek w (Num s))) =
     clamp s (Fin 0) (ToNumber (wf_duration w)) \<and>
   (lookup (options w) ''mediaElement'' = MediaElement k m \<and>
    clamp s (Fin 0) (duration m) = Fin r \<longrightarrow>
      (\<exists>w'. seek w (Num s) = Return w' \<and>
         lookup (options w') ''mediaElement'' = MediaElement k (m\<lparr>currentTime := Fin r\<rparr>) \<and>
         wf_currentTime w' = Num (Fin r))) \<and>
   (\<not> truthy (lookup (options w) ''mediaElement'') \<longrightarrow>
      (\<exists>w'. seek w (Num s) = Return w' \<and>
         wf_currentTime w' = Num (clamp s (Fin 0) PosInf)))"
proof -
  have time: "priv_currentTime (state_of (seek w (Num s))) =
                clamp s (Fin 0) (ToNumber (wf_duration w))"
    by (auto simp: seek_def errorHandle_def Let_def update_fields split: sum.splits)
  have attached: "\<exists>w'. seek w (Num s) = Return w' \<and>
         lookup (options w') ''mediaElement'' = MediaElement k (m\<lparr>currentTime := Fin r\<rparr>) \<and>
         wf_currentTime w' = Num (Fin r)"
    if "lookup (options w) ''mediaElement'' = MediaElement k m"
      and "clamp s (Fin 0) (duration m) = Fin r"
    using that
    by (auto simp: seek_def errorHandle_def Let_def update_fields wf_duration_def
        wf_currentTime_def lookup_def strict_neq_num_def dest: strict_neq_False)
  have detached: "\<exists>w'. seek w (Num s) = Return w' \<and>
         wf_currentTime w' = Num (clamp s (Fin 0) PosInf)"
    if "\<not> truthy (lookup (options w) ''mediaElement'')"
    using that
    by (auto simp: seek_def errorHandle_def Let_def update_fields wf_duration_def
        wf_currentTime_def)
  show ?thesis using time attached detached by blast
qed

theorem seek_clamps_finite_witness:
  "priv_currentTime (state_of (seek with_media (Num (Fin 100)))) = Fin 60 \<and>
   (\<exists>w'. seek with_media (Num (Fin 100)) = Return w' \<and>
      lookup (options w') ''mediaElement'' =
        MediaElement Video (playing_media\<lparr>currentTime := Fin 60\<rparr>) \<and>
      wf_currentTime w' = Num (Fin 60)) \<and>
   (\<exists>w'. seek without_media (Num (Fin (- 2))) = Return w' \<and>
      wf_currentTime w' = Num (Fin 0))"
  using seek_clamps_finite [of with_media "Fin 100" Video playing_media 60]
    seek_clamps_finite [of without_media "Fin (- 2)" Video playing_media 60]
  by (simp add: with_media_def without_media_def playing_media_def new_wfplayer_def
      lookup_def wf_duration_def clamp_def Math_max_def Math_min_def)

text \<open>
  Claim C1 as first stated, for every number and every attached element, fails where the
  clamped value is not finite. On the instance whose video element has loaded nothing
  (duration NaN, \<^verbatim>\<open>currentTime\<close> 0), \<^verbatim>\<open>seek(5)\<close> computes \<open>clamp(5, 0, NaN) = NaN\<close>, the
  assignment to the element throws a \<open>TypeError\<close>, and the element's \<^verbatim>\<open>currentTime\<close>, which
  the getter reports, is still 0.
\<close>

theorem seek_unloaded_counterexample:
  "clamp (Fin 5) (Fin 0) (ToNumber (wf_duration unloaded_player)) = NaN \<and>
   thrown (seek unloaded_player (Num (Fin 5))) = Some TypeError \<and>
   lookup (options (state_of (seek unloaded_player (Num (Fin 5))))) ''mediaElement'' =
     MediaElement Video sourceless_media \<and>
   wf_currentTime (state_of (seek unloaded_player (Num (Fin 5)))) = Num (Fin 0)"
  by (simp add: unloaded_player_def sourceless_media_def new_wfplayer_def seek_def
      errorHandle_def Let_def wf_duration_def wf_currentTime_def lookup_def clamp_def
      Math_max_def Math_min_def strict_neq_num_def strict_neq_def)

text \<open>
  Claim C2. When the options object holds, under the name of a numeric option, a number
  outside the documented range of that option, \<^verbatim>\<open>setOptions\<close> throws a \<open>ConfigError\<close> and
  the instance is what it was before the call: \<^verbatim>\<open>options\<close>, and every other field.
\<close>

theorem setOptions_out_of_range:
  assumes "kindOf opts = ''object''"
    and "documented_range k = Some (mn, mx, isInt)"
    and "own_properties opts k = Some (Num x)"
    and "\<not> (js_le (Fin mn) x \<and> js_le x (Fin mx))"
  shows "setOptions e w opts = Throw ConfigError w"
proof -
  have key: "k \<noteq> ''container'' \<and> k \<noteq> ''mediaElement''"
    using assms(2) by (rule numeric_key)
  have val: "lookup (merged e w opts) k = Num x"
    using key assms(3) by (simp add: merged_own)
  have "\<not> in_documented_range mn mx isInt (Num x)"
    using assms(4) by (cases x) (auto simp: in_documented_range_def)
  then have "check_entry (Validator (checkNum k mn mx isInt)) (lookup (merged e w opts) k)
               \<noteq> None"
    by (simp only: val check_entry_checkNum) simp
  then have "check_keys (merged e w opts) WFPlayer_scheme \<noteq> None"
    using scheme_numeric [OF assms(2)] check_keys_fails by blast
  then show ?thesis by (simp add: setOptions_cases [OF assms(1)])
qed

theorem setOptions_out_of_range_witness:
  "setOptions example_env new_wfplayer (example_options 5) = Throw ConfigError new_wfplayer"
  using setOptions_out_of_range
    [of "example_options 5" "''refreshDelay''" 16 1000 True "Fin 5" example_env new_wfplayer]
  by (simp add: documented_range_def example_options_def)

text \<open>
  Claim C3, at a video element whose \<^verbatim>\<open>currentSrc\<close> is empty, given to \<^verbatim>\<open>load\<close> on the first
  example instance: \<^verbatim>\<open>load\<close> throws the \<open>InvalidTargetError\<close>, and \<^verbatim>\<open>options.mediaElement\<close>,
  which was \<^verbatim>\<open>null\<close> before the call, is the rejected element after it. The assignment of
  \<^verbatim>\<open>options.mediaElement\<close> comes before the check of the target in the source.
\<close>

theorem load_sourceless_media:
  "thrown (load (state_of (snd first_player)) (MediaElement Video sourceless_media)) =
     Some InvalidTargetError \<and>
   lookup (options (state_of (snd first_player))) ''mediaElement'' = Null \<and>
   lookup (options (state_of
       (load (state_of (snd first_player)) (MediaElement Video sourceless_media))))
     ''mediaElement'' = MediaElement Video sourceless_media"
proof -
  have "trim (currentSrc sourceless_media) = []"
    by (simp add: sourceless_media_def trim_def)
  then have l: "load (state_of (snd first_player)) (MediaElement Video sourceless_media) =
     Throw InvalidTargetError
       ((call (Emit ''load'' (MediaElement Video sourceless_media))
           (state_of (snd first_player)))
          \<lparr>options := (options (state_of (snd first_player)))
             (''mediaElement'' \<mapsto> MediaElement Video sourceless_media)\<rparr>)"
    by (rule load_invalid_media)
  have "lookup ((options (state_of (snd first_player)))
          (''mediaElement'' \<mapsto> MediaElement Video sourceless_media)) ''mediaElement'' =
        MediaElement Video sourceless_media"
    by (simp add: lookup_def)
  then show ?thesis
    by (simp add: l first_player_media)
qed

text \<open>
  Claim C4, on two instances constructed one after the other, the first of which is
  destroyed twice: the registry holds both (ids 1 and 2), the first \<^verbatim>\<open>destroy\<close> leaves the
  second instance in it, and the second \<^verbatim>\<open>destroy\<close> of the first instance empties it.
  \<^verbatim>\<open>indexOf\<close> gives \<open>-1\<close> for the instance that is no longer registered, and
  \<^verbatim>\<open>splice(-1, 1)\<close> removes the last element.
\<close>

theorem destroy_twice_registry:
  "instances (fst second_player) = [1, 2] \<and>
   wf_id (state_of (snd first_player)) = 1 \<and>
   instances (fst destroyed_once) = [2] \<and>
   instances (fst destroyed_twice) = []"
proof -
  have a: "wf_id (state_of (snd first_player)) = 1"
    by (simp add: first_player_facts example_globals_def)
  have g2: "instances (fst second_player) = [1, 2]"
    by (simp add: second_player_facts first_player_facts example_globals_def)
  have g3: "instances (fst destroyed_once) = [2]"
    by (simp add: destroyed_once_def destroy_present g2 a)
  have "wf_id (snd destroyed_once) = 1"
    by (simp add: destroyed_once_def destroy_fields a)
  then have "instances (fst destroyed_twice) = []"
    by (simp add: destroyed_twice_def destroy_absent g3)
  then show ?thesis using a g2 g3 by simp
qed

text \<open>
  Claim C5. A value given under the name of a numeric option is accepted exactly when it
  is a finite number within the documented bounds of that option, and an integer where
  the option is documented as one: \<open>checkNum\<close> returns \<^verbatim>\<open>true\<close> on exactly these values,
  and, the other options being valid, \<^verbatim>\<open>setOptions\<close> returns (with the merged options
  assigned) on exactly these values and throws a \<open>ConfigError\<close>, the instance unchanged,
  on every other.
\<close>

theorem setOptions_numeric_range:
  assumes "kindOf opts = ''object''"
    and "documented_range k = Some (mn, mx, isInt)"
    and "own_properties opts k = Some v"
    and "\<forall>(k', s') \<in> set WFPlayer_scheme. k' \<noteq> k \<longrightarrow>
           check_entry s' (lookup (merged e w opts) k') = None"
  shows "((\<exists>w'. setOptions e w opts = Return w') = in_documented_range mn mx isInt v) \<and>
         (checkNum k mn mx isInt v (kindOf v) = Inr True) = in_documented_range mn mx isInt v \<and>
         (if in_documented_range mn mx isInt v
          then setOptions e w opts = Return (update (w\<lparr>options := merged e w opts\<rparr>))
          else setOptions e w opts = Throw ConfigError w)"
proof -
  have key: "k \<noteq> ''container'' \<and> k \<noteq> ''mediaElement''"
    using assms(2) by (rule numeric_key)
  have val: "lookup (merged e w opts) k = v"
    using key assms(3) by (simp add: merged_own)
  have "(check_keys (merged e w opts) WFPlayer_scheme = None) =
          (check_entry (Validator (checkNum k mn mx isInt)) (lookup (merged e w opts) k) = None \<and>
           (\<forall>(k', s') \<in> set WFPlayer_scheme. k' \<noteq> k \<longrightarrow>
              check_entry s' (lookup (merged e w opts) k') = None))"
    by (rule check_keys_split [OF scheme_distinct scheme_numeric [OF assms(2)]])
  then have "(check_keys (merged e w opts) WFPlayer_scheme = None) =
          (check_entry (Validator (checkNum k mn mx isInt)) v = None)"
    using assms(4) unfolding val by blast
  then have ck: "(check_keys (merged e w opts) WFPlayer_scheme = None) =
                   in_documented_range mn mx isInt v"
    by (simp only: check_entry_checkNum) simp
  show ?thesis
    unfolding setOptions_cases [OF assms(1)] checkNum_accepts ck by simp
qed

theorem setOptions_numeric_range_witness:
  "setOptions example_env new_wfplayer (example_options 4) = Throw ConfigError new_wfplayer \<and>
   setOptions example_env new_wfplayer (example_options 16) =
     Return (update (new_wfplayer
       \<lparr>options := merged example_env new_wfplayer (example_options 16)\<rparr>))"
  using setOptions_numeric_range
      [of "example_options 4" "''refreshDelay''" 16 1000 True "Num (Fin 4)" example_env
          new_wfplayer, OF _ _ _ example_others_valid]
    setOptions_numeric_range
      [of "example_options 16" "''refreshDelay''" 16 1000 True "Num (Fin 16)" example_env
          new_wfplayer, OF _ _ _ example_others_valid]
  by (simp add: documented_range_def example_options_def in_documented_range_def)

text \<open>
  Claim C6. With decoded audio of \<open>channelCount\<close> channels and a channel index
  \<open>i \<ge> channelCount\<close>, \<^verbatim>\<open>changeChannel(i)\<close> throws an \<open>InvalidChannelError\<close> and the instance
  is what it was before the call: the peak table of the decoder and \<^verbatim>\<open>options.channel\<close>
  among the rest.
\<close>

theorem changeChannel_out_of_range:
  "audio (decoder w) = Some a \<Longrightarrow> channelCount a \<le> i \<Longrightarrow>
     changeChannel e reduce w i = Throw InvalidChannelError w"
  by (simp add: changeChannel_def decoder_changeChannel_fails)

theorem changeChannel_out_of_range_witness:
  "changeChannel example_env (\<lambda>xs. []) ready_player 2 = Throw InvalidChannelError ready_player"
  using changeChannel_out_of_range [of ready_player example_audio 2 example_env "\<lambda>xs. []"]
  by (simp add: ready_player_def example_audio_def channelCount_def)

text \<open>
  Claim C7. With a media element attached, the \<^verbatim>\<open>currentTime\<close> getter returns the element's
  \<^verbatim>\<open>currentTime\<close>, whatever \<^verbatim>\<open>_currentTime\<close> holds, and the \<^verbatim>\<open>duration\<close> getter the element's
  \<^verbatim>\<open>duration\<close>; with none attached, the \<^verbatim>\<open>currentTime\<close> getter returns \<^verbatim>\<open>_currentTime\<close>.
\<close>

theorem currentTime_source:
  "(lookup (options w) ''mediaElement'' = MediaElement k m \<longrightarrow>
      wf_currentTime w = Num (currentTime m) \<and>
      wf_currentTime (w\<lparr>priv_currentTime := t\<rparr>) = Num (currentTime m) \<and>
      wf_duration w = Num (duration m)) \<and>
   (\<not> truthy (lookup (options w) ''mediaElement'') \<longrightarrow>
      wf_currentTime w = Num (priv_currentTime w))"
  by (simp add: wf_currentTime_def wf_duration_def)

theorem currentTime_source_witness:
  "wf_currentTime with_media = Num (Fin 3) \<and>
   wf_currentTime (with_media\<lparr>priv_currentTime := Fin 99\<rparr>) = Num (Fin 3) \<and>
   wf_duration with_media = Num (Fin 60) \<and>
   wf_currentTime without_media = Num (Fin 7)"
  using currentTime_source [of with_media Video playing_media "Fin 99"]
    currentTime_source [of without_media Video playing_media "Fin 99"]
  by (simp add: with_media_def without_media_def playing_media_def new_wfplayer_def lookup_def)

text \<open>
  Claim C8. The default of \<^verbatim>\<open>pixelRatio\<close> is \<^verbatim>\<open>Math.ceil\<close> of the environment's
  \<^verbatim>\<open>devicePixelRatio\<close>: for a finite ratio \<open>r\<close>, the integer \<open>n\<close> with \<open>r \<le> n < r + 1\<close>.
\<close>

theorem default_pixelRatio:
  "lookup (map_of (WFPlayer_default e)) ''pixelRatio'' = Num (Math_ceil (devicePixelRatio e)) \<and>
   (devicePixelRatio e = Fin r \<longrightarrow>
      (\<exists>n::int. lookup (map_of (WFPlayer_default e)) ''pixelRatio'' = Num (Fin (of_int n)) \<and>
         r \<le> of_int n \<and> of_int n < r + 1))"
proof -
  have "lookup (map_of (WFPlayer_default e)) ''pixelRatio'' =
          Num (Math_ceil (devicePixelRatio e))"
    by (simp add: WFPlayer_default_def lookup_def)
  moreover have "r \<le> of_int \<lceil>r\<rceil> \<and> of_int \<lceil>r\<rceil> < r + 1"
    by linarith
  ultimately show ?thesis by auto
qed

theorem default_pixelRatio_witness:
  "lookup (map_of (WFPlayer_default example_env)) ''pixelRatio'' = Num (Fin 2)"
  using default_pixelRatio [of example_env "1.5"]
  by (simp add: example_env_def)

text \<open>
  Claim C9. With no media element attached the \<^verbatim>\<open>duration\<close> getter returns \<^verbatim>\<open>Infinity\<close>, and
  \<^verbatim>\<open>seek(s)\<close> returns with \<^verbatim>\<open>_currentTime\<close> equal to \<open>s\<close> for every number \<open>s \<ge> 0\<close>; the only
  other value it can leave is the lower bound 0, for \<open>s < 0\<close>.
\<close>

theorem seek_without_media:
  "\<not> truthy (lookup (options w) ''mediaElement'') \<Longrightarrow>
     wf_duration w = Num PosInf \<and>
     (\<exists>w'. seek w (Num s) = Return w' \<and>
        priv_currentTime w' = (if js_lt s (Fin 0) then Fin 0 else s) \<and>
        (js_le (Fin 0) s \<longrightarrow> priv_currentTime w' = s))"
proof -
  assume a: "\<not> truthy (lookup (options w) ''mediaElement'')"
  have d: "wf_duration w = Num PosInf" using a by (simp add: wf_duration_def)
  have "js_le (Fin 0) s \<Longrightarrow> \<not> js_lt s (Fin 0)" by (cases s) auto
  then show ?thesis using a d
    by (auto simp: seek_def errorHandle_def Let_def update_fields clamp_PosInf)
qed

theorem seek_without_media_witness:
  "\<not> truthy (lookup (options without_media) ''mediaElement'') \<and>
   wf_duration without_media = Num PosInf \<and>
   (\<exists>w'. seek without_media (Num (Fin 12.5)) = Return w' \<and> priv_currentTime w' = Fin 12.5)"
  using seek_without_media [of without_media "Fin 12.5"]
  by (simp add: without_media_def new_wfplayer_def lookup_def)

text \<open>
  Claim C10. The \<^verbatim>\<open>playing\<close> getter returns \<^verbatim>\<open>false\<close> with no media element attached; with
  one attached it returns \<^verbatim>\<open>true\<close> exactly when the element's \<^verbatim>\<open>currentTime\<close> is greater
  than 0, it is not paused, it has not ended, and its \<^verbatim>\<open>readyState\<close> is greater than 2.
\<close>

theorem playing_getter:
  "(\<not> truthy (lookup (options w) ''mediaElement'') \<longrightarrow> wf_playing w = False) \<and>
   (lookup (options w) ''mediaElement'' = MediaElement k m \<longrightarrow>
      wf_playing w =
        (js_lt (Fin 0) (currentTime m) \<and> \<not> paused m \<and> \<not> ended m \<and> 2 < readyState m))"
  by (simp add: wf_playing_def)

theorem playing_getter_witness:
  "wf_playing without_media = False \<and> wf_playing with_media = True \<and>
   wf_playing (with_media\<lparr>options :=
      [''mediaElement'' \<mapsto> MediaElement Video (playing_media\<lparr>paused := True\<rparr>)]\<rparr>) = False"
  using playing_getter [of without_media Video playing_media]
    playing_getter [of with_media Video playing_media]
    playing_getter [of "with_media\<lparr>options :=
      [''mediaElement'' \<mapsto> MediaElement Video (playing_media\<lparr>paused := True\<rparr>)]\<rparr>"
      Video "playing_media\<lparr>paused := True\<rparr>"]
  by (simp add: with_media_def without_media_def playing_media_def new_wfplayer_def lookup_def)

end
